theory Spec2Isabelle
  imports Complex_Main "HOL-Library.Product_Lexorder"
begin

section \<open>Data model\<close>

text \<open>
  The program is one Python script, \<^verbatim>\<open>Aula_01/app.py\<close>: a loader \<^verbatim>\<open>load_data\<close> that
  normalises a frame read from CSV, and the script body that filters the loaded frame and
  derives the views shown on the page.

  A column of the frame holds 64-bit floats (\<^verbatim>\<open>NaN\<close> marks a missing value) or text.
  The numeric value of a finite float is kept as a rational; how the binary format rounds
  is outside this development, and every operation that depends on it is a parameter.
\<close>

datatype float64 = Finite rat | PosInf | NegInf | NaN

text \<open>A Python string: its Unicode code points.\<close>

type_synonym pystr = "nat list"

datatype cell = Str pystr | Num float64

text \<open>The frame as \<^verbatim>\<open>pd.read_csv\<close> hands it over: the header and the rows, cell by cell.\<close>

record raw_frame =
  raw_columns :: "pystr list"
  raw_rows :: "cell list list"

text \<open>
  One row of the loaded frame. \<^verbatim>\<open>datetime\<close> is a \<^verbatim>\<open>datetime64[ns]\<close> value: nanoseconds
  since 1970-01-01, \<open>None\<close> for \<^verbatim>\<open>NaT\<close>. \<^verbatim>\<open>date\<close> is a calendar day, counted in days
  since 1970-01-01. \<open>others\<close> keeps the cells the row was read with, under the
  normalised labels.
\<close>

record pickup =
  datetime :: "int option"
  lat :: float64
  lon :: float64
  base :: pystr
  date :: "int option"
  hour :: "int option"
  weekday :: "pystr option"
  others :: "(pystr \<times> cell) list"

text \<open>
  The loaded frame: the labels in header order, and the rows. A value of this type stands
  for a frame that has the seven columns of \<^typ>\<open>pickup\<close>; \<open>columns\<close> says where they
  sit among the labels.
\<close>

record table =
  columns :: "pystr list"
  rows :: "pickup list"

datatype error = ValueError pystr | KeyError "pystr list"

text \<open>
  What the script takes from pandas, numpy and Python and this development does not
  look into:
  \<^item> \<open>to_datetime col c\<close>: the timestamp \<^verbatim>\<open>pd.to_datetime(col, errors="coerce")\<close> gives the
    element \<open>c\<close> of the column \<open>col\<close> (the format is inferred from the column), \<open>None\<close>
    when it does not parse;
  \<^item> \<open>str_to_float s\<close>: the number \<^verbatim>\<open>pd.to_numeric(_, errors="coerce")\<close> reads from
    text, \<open>NaN\<close> when there is none;
  \<^item> \<open>float_to_str x\<close>: \<^verbatim>\<open>str\<close> of a finite float;
  \<^item> \<open>py_repr s\<close>: \<^verbatim>\<open>repr\<close> of a Python string;
  \<^item> \<open>to_lower before c after\<close>: what \<^verbatim>\<open>str.lower()\<close> makes of the character \<open>c\<close>
    outside ASCII that stands between \<open>before\<close> and \<open>after\<close>;
  \<^item> \<open>to_upper c\<close>: what \<^verbatim>\<open>str.upper()\<close> makes of the character \<open>c\<close> outside ASCII;
  \<^item> \<open>round_to n x\<close>: \<^verbatim>\<open>Series.round(n)\<close> on one element;
  \<^item> \<open>average xs\<close>: \<^verbatim>\<open>np.average\<close>;
  \<^item> \<open>date_input_nat\<close>: what \<^verbatim>\<open>st.date_input\<close> does when the dates it is given are
    \<^verbatim>\<open>NaT\<close>: the exception it raises, or \<open>None\<close> when it returns.
\<close>

record library =
  to_datetime :: "cell list \<Rightarrow> cell \<Rightarrow> int option"
  str_to_float :: "pystr \<Rightarrow> float64"
  float_to_str :: "rat \<Rightarrow> pystr"
  py_repr :: "pystr \<Rightarrow> pystr"
  to_lower :: "pystr \<Rightarrow> nat \<Rightarrow> pystr \<Rightarrow> pystr"
  to_upper :: "nat \<Rightarrow> pystr"
  round_to :: "nat \<Rightarrow> float64 \<Rightarrow> float64"
  average :: "float64 list \<Rightarrow> float64"
  date_input_nat :: "error option"

section \<open>Strings\<close>

text \<open>
  A Python string is the list of its Unicode code points; \<open>ascii\<close> reads a literal of
  this file as one.

  \<^verbatim>\<open>str.strip()\<close> removes, at both ends, the characters for which Python's
  \<^verbatim>\<open>str.isspace\<close> holds; \<open>isspace\<close> lists them. \<^verbatim>\<open>str.upper()\<close> maps every character by
  itself and \<^verbatim>\<open>str.lower()\<close> does so too, except that what a character becomes may
  depend on what stands before and after it (the capital sigma). On the 128 ASCII
  characters both are the maps between A to Z and a to z; on the others they are the
  Unicode tables \<open>to_upper\<close> and \<open>to_lower\<close> of the library, which give one or more
  characters for one. pandas' \<^verbatim>\<open>.str.strip()\<close> and \<^verbatim>\<open>.str.upper()\<close> apply the same
  functions to every element.
\<close>

definition ascii :: "string \<Rightarrow> pystr" where
  "ascii s = map of_char s"

definition isspace :: "nat \<Rightarrow> bool" where
  "isspace c =
     ((9 \<le> c \<and> c \<le> 13) \<or> (28 \<le> c \<and> c \<le> 32) \<or> c = 133 \<or> c = 160 \<or> c = 5760
      \<or> (8192 \<le> c \<and> c \<le> 8202) \<or> c = 8232 \<or> c = 8233 \<or> c = 8239 \<or> c = 8287
      \<or> c = 12288)"

definition lower_char :: "library \<Rightarrow> pystr \<Rightarrow> nat \<Rightarrow> pystr \<Rightarrow> pystr" where
  "lower_char L before c after =
     (if c < 128 then [if 65 \<le> c \<and> c \<le> 90 then c + 32 else c]
      else to_lower L before c after)"

definition upper_char :: "library \<Rightarrow> nat \<Rightarrow> pystr" where
  "upper_char L c =
     (if c < 128 then [if 97 \<le> c \<and> c \<le> 122 then c - 32 else c] else to_upper L c)"

fun lower_from :: "library \<Rightarrow> pystr \<Rightarrow> pystr \<Rightarrow> pystr" where
  "lower_from L before [] = []"
| "lower_from L before (c # after) = lower_char L before c after @ lower_from L (before @ [c]) after"

definition lower :: "library \<Rightarrow> pystr \<Rightarrow> pystr" where
  "lower L s = lower_from L [] s"

definition upper :: "library \<Rightarrow> pystr \<Rightarrow> pystr" where
  "upper L s = concat (map (upper_char L) s)"

definition strip :: "pystr \<Rightarrow> pystr" where
  "strip s = rev (dropWhile isspace (rev (dropWhile isspace s)))"

text \<open>A string that neither starts nor ends with white space.\<close>

definition trimmed :: "pystr \<Rightarrow> bool" where
  "trimmed s = (s = [] \<or> (\<not> isspace (hd s) \<and> \<not> isspace (last s)))"

text \<open>
  Three properties of the upper-case table of Unicode, for the characters outside ASCII:
  a character never maps to nothing, what it maps to is upper case already, and a
  character that is no white space does not map to white space.
\<close>

definition stable_upper :: "library \<Rightarrow> bool" where
  "stable_upper L =
     (\<forall>c. 128 \<le> c \<longrightarrow>
        to_upper L c \<noteq> []
        \<and> (\<forall>d \<in> set (to_upper L c). upper_char L d = [d] \<and> (\<not> isspace c \<longrightarrow> \<not> isspace d)))"

section \<open>The loader\<close>

definition DATE_COL_RAW :: pystr where "DATE_COL_RAW = ascii ''date/time''"
definition LAT_COL :: pystr where "LAT_COL = ascii ''lat''"
definition LON_COL :: pystr where "LON_COL = ascii ''lon''"
definition BASE_COL :: pystr where "BASE_COL = ascii ''base''"

text \<open>\<^verbatim>\<open>df[name]\<close> on one row; a row shorter than the header reads as missing.\<close>

definition cell_of :: "(pystr \<times> cell) list \<Rightarrow> pystr \<Rightarrow> cell" where
  "cell_of r name = (case map_of r name of Some c \<Rightarrow> c | None \<Rightarrow> Num NaN)"

definition isna :: "cell \<Rightarrow> bool" where
  "isna c = (c = Num NaN)"

text \<open>\<^verbatim>\<open>pd.to_numeric(_, errors="coerce")\<close> on one element.\<close>

definition to_numeric :: "library \<Rightarrow> cell \<Rightarrow> float64" where
  "to_numeric L c = (case c of Num x \<Rightarrow> x | Str s \<Rightarrow> str_to_float L s)"

text \<open>\<^verbatim>\<open>astype(str)\<close> on one element of an object or float column.\<close>

definition astype_str :: "library \<Rightarrow> cell \<Rightarrow> pystr" where
  "astype_str L c =
     (case c of
        Str s \<Rightarrow> s
      | Num NaN \<Rightarrow> ascii ''nan''
      | Num PosInf \<Rightarrow> ascii ''inf''
      | Num NegInf \<Rightarrow> ascii ''-inf''
      | Num (Finite x) \<Rightarrow> float_to_str L x)"

text \<open>\<^verbatim>\<open>str(list(df.columns))\<close>.\<close>

fun join :: "pystr \<Rightarrow> pystr list \<Rightarrow> pystr" where
  "join sep [] = []"
| "join sep [x] = x"
| "join sep (x # y # ys) = x @ sep @ join sep (y # ys)"

definition list_str :: "library \<Rightarrow> pystr list \<Rightarrow> pystr" where
  "list_str L xs = ascii ''['' @ join (ascii '', '') (map (py_repr L) xs) @ ascii '']''"

text \<open>
  The message of line 46; 39 is the quote, 227 and 237 are the a with tilde and the i with
  acute accent.
\<close>

definition schema_message :: "library \<Rightarrow> pystr list \<Rightarrow> pystr" where
  "schema_message L cols =
     ascii ''Coluna '' @ [39] @ DATE_COL_RAW @ [39] @ ascii '' n'' @ [227]
       @ ascii ''o encontrada. Colunas dispon'' @ [237] @ ascii ''veis: '' @ list_str L cols"

text \<open>Timestamp fields: \<^verbatim>\<open>.dt.date\<close>, \<^verbatim>\<open>.dt.hour\<close>, \<^verbatim>\<open>.dt.day_name()\<close>.\<close>

definition ns_per_hour :: int where "ns_per_hour = 3600 * 1000000000"
definition ns_per_day :: int where "ns_per_day = 24 * ns_per_hour"

definition date_of :: "int \<Rightarrow> int" where
  "date_of t = t div ns_per_day"

definition hour_of :: "int \<Rightarrow> int" where
  "hour_of t = (t div ns_per_hour) mod 24"

definition day_names :: "pystr list" where
  "day_names = map ascii [''Monday'', ''Tuesday'', ''Wednesday'', ''Thursday'', ''Friday'', ''Saturday'', ''Sunday'']"

text \<open>1970-01-01 was a Thursday.\<close>

definition day_name :: "int \<Rightarrow> pystr" where
  "day_name t = day_names ! nat ((date_of t + 3) mod 7)"

text \<open>\<^verbatim>\<open>df[name] = ...\<close> on the header: an existing label keeps its place, a new one goes last.\<close>

definition assign :: "pystr \<Rightarrow> pystr list \<Rightarrow> pystr list" where
  "assign name cols = (if name \<in> set cols then cols else cols @ [name])"

definition rename_date :: "pystr list \<Rightarrow> pystr list" where
  "rename_date cols = map (\<lambda>c. if c = DATE_COL_RAW then ascii ''datetime'' else c) cols"

text \<open>\<^verbatim>\<open>dropna(subset=...)\<close> raises \<^verbatim>\<open>KeyError\<close> with the labels it does not find.\<close>

definition missing_labels :: "pystr list \<Rightarrow> pystr list \<Rightarrow> pystr list" where
  "missing_labels wanted cols = filter (\<lambda>c. c \<notin> set cols) wanted"

text \<open>Line 42.\<close>

definition normalise_columns :: "library \<Rightarrow> pystr list \<Rightarrow> pystr list" where
  "normalise_columns L cs = map (\<lambda>c. lower L (strip c)) cs"

text \<open>Lines 41 to 69, from the frame that \<^verbatim>\<open>pd.read_csv\<close> returned.\<close>

definition load_data :: "library \<Rightarrow> raw_frame \<Rightarrow> error + table" where
  "load_data L df0 =
     (let cols = normalise_columns L (raw_columns df0);
          df = map (\<lambda>r. zip cols r) (raw_rows df0)
      in if DATE_COL_RAW \<notin> set cols then Inl (ValueError (schema_message L cols))
         else
           let dcol = map (\<lambda>r. cell_of r DATE_COL_RAW) df;
               parsed = map (\<lambda>r. (to_datetime L dcol (cell_of r DATE_COL_RAW), r)) df
           in case missing_labels [DATE_COL_RAW, LAT_COL, LON_COL] cols of
                m # ms \<Rightarrow> Inl (KeyError (m # ms))
              | [] \<Rightarrow>
                  let kept = filter (\<lambda>(t, r). t \<noteq> None \<and> \<not> isna (cell_of r LAT_COL)
                                                \<and> \<not> isna (cell_of r LON_COL)) parsed;
                      numeric = map (\<lambda>(t, r). (t, to_numeric L (cell_of r LAT_COL),
                                                  to_numeric L (cell_of r LON_COL), r)) kept;
                      kept2 = filter (\<lambda>(t, la, lo, r). la \<noteq> NaN \<and> lo \<noteq> NaN) numeric;
                      cols2 = assign (ascii ''weekday'') (assign (ascii ''hour'')
                                (assign (ascii ''date'') (rename_date cols)));
                      has_base = (BASE_COL \<in> set cols2)
                  in Inr \<lparr> columns = assign BASE_COL cols2,
                           rows = map (\<lambda>(t, la, lo, r).
                                    \<lparr> datetime = t, lat = la, lon = lo,
                                      base = (if has_base then upper L (strip (astype_str L (cell_of r BASE_COL)))
                                              else ascii ''UNKNOWN''),
                                      date = map_option date_of t,
                                      hour = map_option hour_of t,
                                      weekday = map_option day_name t,
                                      others = r \<rparr>) kept2 \<rparr>)"

text \<open>
  The frames the development is about: no two labels are the same once normalised and
  renamed (pandas answers \<^verbatim>\<open>df[name]\<close> with a frame, not a column, when a label
  repeats), and every row has a cell for each label.
\<close>

definition well_formed :: "library \<Rightarrow> raw_frame \<Rightarrow> bool" where
  "well_formed L df0 =
     (distinct (rename_date (normalise_columns L (raw_columns df0)))
      \<and> list_all (\<lambda>r. length r = length (raw_columns df0)) (raw_rows df0))"

fun is_finite :: "float64 \<Rightarrow> bool" where
  "is_finite (Finite x) = True"
| "is_finite PosInf = False"
| "is_finite NegInf = False"
| "is_finite NaN = False"

section \<open>The script body\<close>

text \<open>
  What the sidebar widgets return. \<^verbatim>\<open>st.date_input\<close> gives one date or a tuple of
  dates (while a range is being picked the tuple has fewer than two entries); the two
  \<^verbatim>\<open>st.multiselect\<close> give lists.
\<close>

datatype date_input = Single int | Dates "int list"

record widgets =
  chosen_dates :: date_input
  hours :: "int list"
  base_sel :: "pystr list"

text \<open>Lines 143 to 150. A comparison with a missing date is false, as is \<^verbatim>\<open>isin\<close>.\<close>

definition filtered :: "table \<Rightarrow> widgets \<Rightarrow> table" where
  "filtered df w =
     (let f1 = (case chosen_dates w of
                  Dates [start_d, end_d] \<Rightarrow>
                    df\<lparr>rows := filter (\<lambda>r. case date r of None \<Rightarrow> False
                                                | Some d \<Rightarrow> start_d \<le> d \<and> d \<le> end_d) (rows df)\<rparr>
                | _ \<Rightarrow> df);
          f2 = (if hours w \<noteq> []
                then f1\<lparr>rows := filter (\<lambda>r. case hour r of None \<Rightarrow> False
                                              | Some h \<Rightarrow> h \<in> set (hours w)) (rows f1)\<rparr>
                else f1);
          f3 = (if base_sel w \<noteq> []
                then f2\<lparr>rows := filter (\<lambda>r. base r \<in> set (base_sel w)) (rows f2)\<rparr>
                else f2)
      in f3)"

text \<open>The three tests of lines 144 to 150 on one row.\<close>

definition keep :: "widgets \<Rightarrow> pickup \<Rightarrow> bool" where
  "keep w r =
     ((case chosen_dates w of
         Dates [start_d, end_d] \<Rightarrow>
           (case date r of None \<Rightarrow> False | Some d \<Rightarrow> start_d \<le> d \<and> d \<le> end_d)
       | _ \<Rightarrow> True)
      \<and> (hours w \<noteq> [] \<longrightarrow> (case hour r of None \<Rightarrow> False | Some h \<Rightarrow> h \<in> set (hours w)))
      \<and> (base_sel w \<noteq> [] \<longrightarrow> base r \<in> set (base_sel w)))"

text \<open>
  \<^verbatim>\<open>groupby(keys, as_index=False).size()\<close>: one entry for each distinct key, in ascending
  key order, with the number of rows that have the key. Rows with a missing key are left
  out before (\<^verbatim>\<open>dropna=True\<close>), so \<open>ks\<close> is the list of the keys that are present.
\<close>

definition groupby_size :: "('k \<Rightarrow> 'o::linorder) \<Rightarrow> 'k list \<Rightarrow> ('k \<times> nat) list" where
  "groupby_size ord ks = map (\<lambda>k. (k, count_list ks k)) (sort_key ord (remdups ks))"

text \<open>Lines 187 to 192.\<close>

definition hour_counts :: "table \<Rightarrow> (int \<times> nat) list" where
  "hour_counts f = sort_key fst (groupby_size (\<lambda>h. h) (List.map_filter hour (rows f)))"

text \<open>The order of floats that are not \<^verbatim>\<open>NaN\<close>.\<close>

fun float_rank :: "float64 \<Rightarrow> int \<times> rat" where
  "float_rank NegInf = (0, 0)"
| "float_rank (Finite x) = (1, x)"
| "float_rank PosInf = (2, 0)"
| "float_rank NaN = (3, 0)"

text \<open>
  Lines 209 to 215. \<^verbatim>\<open>sort_values("size", ascending=False)\<close> is taken as the stable
  sort; numpy leaves the order of equal counts open on long inputs, and nothing below
  depends on it.
\<close>

definition quantized :: "library \<Rightarrow> table \<Rightarrow> ((float64 \<times> float64) \<times> nat) list" where
  "quantized L f =
     (let keys = map (\<lambda>r. (round_to L 3 (lat r), round_to L 3 (lon r))) (rows f);
          present = filter (\<lambda>(a, b). a \<noteq> NaN \<and> b \<noteq> NaN) keys;
          sizes = groupby_size (\<lambda>(a, b). (float_rank a, float_rank b)) present
      in take 10 (sort_key (\<lambda>(k, n). - int n) sizes))"

text \<open>\<^verbatim>\<open>DataFrame.empty\<close>: some axis has length 0.\<close>

definition empty :: "table \<Rightarrow> bool" where
  "empty f = (rows f = [] \<or> columns f = [])"

text \<open>
  \<^verbatim>\<open>to_csv(index=False)\<close>: the header, then one record for each row, with a field for each
  label of the frame. The fields are kept as values: how they are printed, quoted and
  joined, and the UTF-8 encoding, are the library's.
\<close>

datatype field =
  Timestamp "int option" | Day "int option" | Integer "int option" | Text "pystr option" | Raw cell

definition field_of :: "pickup \<Rightarrow> pystr \<Rightarrow> field" where
  "field_of r name =
     (if name = ascii ''datetime'' then Timestamp (datetime r)
      else if name = LAT_COL then Raw (Num (lat r))
      else if name = LON_COL then Raw (Num (lon r))
      else if name = BASE_COL then Raw (Str (base r))
      else if name = ascii ''date'' then Day (date r)
      else if name = ascii ''hour'' then Integer (hour r)
      else if name = ascii ''weekday'' then Text (weekday r)
      else Raw (cell_of (others r) name))"

record csv_file =
  header :: "pystr list"
  records :: "field list list"

definition to_csv :: "table \<Rightarrow> csv_file" where
  "to_csv f = \<lparr> header = columns f, records = map (\<lambda>r. map (field_of r) (columns f)) (rows f) \<rparr>"

text \<open>What the page shows, tab by tab.\<close>

record map_view =
  midpoint :: "float64 \<times> float64"
  points :: "(float64 \<times> float64) list"

record page =
  kpi_rides :: nat
  kpi_days :: nat
  kpi_bases :: nat
  kpi_window :: "int option \<times> int option"
  query_params :: "int option \<times> int option"
  hour_chart :: "(int \<times> nat) list"
  top_locations :: "((float64 \<times> float64) \<times> nat) list"
  map_tab :: "map_view option"
  data_columns :: "pystr list"
  csv :: csv_file

text \<open>
  The script from line 125 on, for a loaded frame \<open>df\<close> and the values of the widgets.
  \<^verbatim>\<open>df["datetime"].min()\<close> skips missing values and is \<^verbatim>\<open>NaT\<close> when nothing is left, and
  \<^verbatim>\<open>NaT.date()\<close> is \<^verbatim>\<open>NaT\<close> (\<open>None\<close> here); the script goes on from there only if
  \<^verbatim>\<open>st.date_input\<close> takes such dates. \<open>map_tab\<close> is \<open>None\<close> where the page shows the
  notice of line 221 in place of the map.
\<close>

definition app :: "library \<Rightarrow> table \<Rightarrow> widgets \<Rightarrow> error + page" where
  "app L df w =
     (let ts = List.map_filter datetime (rows df);
          min_date = (if ts = [] then None else Some (date_of (Min (set ts))));
          max_date = (if ts = [] then None else Some (date_of (Max (set ts))));
          f = filtered df w;
          shown =
            \<lparr> kpi_rides = length (rows f),
              kpi_days = length (remdups (List.map_filter date (rows f))),
              kpi_bases = length (remdups (map base (rows f))),
              kpi_window = (min_date, max_date),
              query_params = (min_date, max_date),
              hour_chart = hour_counts f,
              top_locations = quantized L f,
              map_tab = (if empty f then None
                         else Some \<lparr> midpoint = (average L (map lat (rows f)),
                                                  average L (map lon (rows f))),
                                     points = map (\<lambda>r. (lat r, lon r)) (rows f) \<rparr>),
              data_columns = [ascii ''datetime'', LAT_COL, LON_COL, BASE_COL, ascii ''hour'', ascii ''weekday''],
              csv = to_csv f \<rparr>
      in if ts = [] then (case date_input_nat L of Some e \<Rightarrow> Inl e | None \<Rightarrow> Inr shown)
         else Inr shown)"

section \<open>Sample data\<close>

text \<open>
  A library that agrees with pandas on the values the samples below go through: three
  timestamps of 1 and 2 September 2014 in the tutorial's format and a text that is no
  date, \<^verbatim>\<open>repr\<close> of a label without quotes or escapes, the capital of the e with acute
  accent (and no other letter outside ASCII), rounding to three digits of numbers that
  have no more, the mean of one number. The samples have no text in a
  coordinate, no number in the base column and no frame without a timestamp, so
  \<open>str_to_float\<close>, \<open>float_to_str\<close> and \<open>date_input_nat\<close> are never reached.
\<close>

definition sample_library :: library where
  "sample_library =
     \<lparr> to_datetime = (\<lambda>col c.
         if c = Str (ascii ''9/1/2014 0:02:00'') then Some 1409529720000000000
         else if c = Str (ascii ''9/1/2014 5:10:00'') then Some 1409548200000000000
         else if c = Str (ascii ''9/2/2014 5:30:00'') then Some 1409635800000000000
         else None),
       str_to_float = (\<lambda>s. NaN),
       float_to_str = (\<lambda>x. []),
       py_repr = (\<lambda>s. [39] @ s @ [39]),
       to_lower = (\<lambda>before c after. [c]),
       to_upper = (\<lambda>c. if c = 233 then [201] else [c]),
       round_to = (\<lambda>n x. x),
       average = (\<lambda>xs. case xs of [x] \<Rightarrow> x | _ \<Rightarrow> NaN),
       date_input_nat = None \<rparr>"

definition sample_frame :: raw_frame where
  "sample_frame =
     \<lparr> raw_columns = map ascii [''Date/Time'', ''Lat'', ''Lon'', ''Base''],
       raw_rows =
         [[Str (ascii ''9/1/2014 0:02:00''), Num (Finite (40752 / 1000)), Num (Finite (- 73991 / 1000)), Str (ascii ''B02512'')],
          [Str (ascii ''9/1/2014 5:10:00''), Num (Finite (40645 / 1000)), Num (Finite (- 73782 / 1000)), Str (ascii '' b02598 '')],
          [Str (ascii ''not-a-date''), Num (Finite (40645 / 1000)), Num (Finite (- 73782 / 1000)), Str (ascii ''B02598'')],
          [Str (ascii ''9/2/2014 5:30:00''), Num (Finite (40645 / 1000)), Num (Finite (- 73782 / 1000)), Num NaN]] \<rparr>"

text \<open>The same frame with a latitude that read as infinite (\<^verbatim>\<open>inf\<close> in the file).\<close>

definition inf_frame :: raw_frame where
  "inf_frame =
     \<lparr> raw_columns = map ascii [''Date/Time'', ''Lat'', ''Lon'', ''Base''],
       raw_rows =
         [[Str (ascii ''9/1/2014 0:02:00''), Num PosInf, Num (Finite (- 73991 / 1000)), Str (ascii ''B02512'')]] \<rparr>"


text \<open>A frame without the base column.\<close>

definition baseless_frame :: raw_frame where
  "baseless_frame =
     \<lparr> raw_columns = map ascii [''Date/Time'', ''Lat'', ''Lon''],
       raw_rows =
         [[Str (ascii ''9/1/2014 0:02:00''), Num (Finite (40752 / 1000)), Num (Finite (- 73991 / 1000))]] \<rparr>"

text \<open>What the loader makes of \<open>sample_frame\<close>: the row with the text that is no date is gone.\<close>

definition sample_table :: table where
  "sample_table =
     \<lparr> columns = map ascii [''datetime'', ''lat'', ''lon'', ''base'', ''date'', ''hour'', ''weekday''],
       rows =
         [\<lparr> datetime = Some 1409529720000000000, lat = Finite (40752 / 1000),
             lon = Finite (- 73991 / 1000), base = ascii ''B02512'', date = Some 16314,
             hour = Some 0, weekday = Some (ascii ''Monday''),
             others = [(ascii ''date/time'', Str (ascii ''9/1/2014 0:02:00'')), (ascii ''lat'', Num (Finite (40752 / 1000))),
                       (ascii ''lon'', Num (Finite (- 73991 / 1000))), (ascii ''base'', Str (ascii ''B02512''))] \<rparr>,
          \<lparr> datetime = Some 1409548200000000000, lat = Finite (40645 / 1000),
             lon = Finite (- 73782 / 1000), base = ascii ''B02598'', date = Some 16314,
             hour = Some 5, weekday = Some (ascii ''Monday''),
             others = [(ascii ''date/time'', Str (ascii ''9/1/2014 5:10:00'')), (ascii ''lat'', Num (Finite (40645 / 1000))),
                       (ascii ''lon'', Num (Finite (- 73782 / 1000))), (ascii ''base'', Str (ascii '' b02598 ''))] \<rparr>,
          \<lparr> datetime = Some 1409635800000000000, lat = Finite (40645 / 1000),
             lon = Finite (- 73782 / 1000), base = ascii ''NAN'', date = Some 16315,
             hour = Some 5, weekday = Some (ascii ''Tuesday''),
             others = [(ascii ''date/time'', Str (ascii ''9/2/2014 5:30:00'')), (ascii ''lat'', Num (Finite (40645 / 1000))),
                       (ascii ''lon'', Num (Finite (- 73782 / 1000))), (ascii ''base'', Num NaN)] \<rparr>] \<rparr>"

text \<open>
  A frame with a no-break space (code point 160) before \<^verbatim>\<open>Date/Time\<close> and after
  \<^verbatim>\<open>Base\<close>; the base of its first row is an e with acute accent (233), a b and a
  no-break space, the base of its second row is missing. Below it, what the loader makes
  of it: the base of the first row is a capital E with acute accent (201) and a B.
\<close>

definition unicode_frame :: raw_frame where
  "unicode_frame =
     \<lparr> raw_columns = [160 # ascii ''Date/Time'', ascii ''Lat'', ascii ''Lon'', ascii ''Base'' @ [160]],
       raw_rows =
         [[Str (ascii ''9/1/2014 0:02:00''), Num (Finite (40752 / 1000)), Num (Finite (- 73991 / 1000)),
           Str [233, 98, 160]],
          [Str (ascii ''9/1/2014 5:10:00''), Num (Finite (40645 / 1000)), Num (Finite (- 73782 / 1000)),
           Num NaN]] \<rparr>"

definition unicode_table :: table where
  "unicode_table =
     \<lparr> columns = map ascii [''datetime'', ''lat'', ''lon'', ''base'', ''date'', ''hour'', ''weekday''],
       rows =
         [\<lparr> datetime = Some 1409529720000000000, lat = Finite (40752 / 1000),
             lon = Finite (- 73991 / 1000), base = [201, 66], date = Some 16314,
             hour = Some 0, weekday = Some (ascii ''Monday''),
             others = [(ascii ''date/time'', Str (ascii ''9/1/2014 0:02:00'')),
                       (ascii ''lat'', Num (Finite (40752 / 1000))),
                       (ascii ''lon'', Num (Finite (- 73991 / 1000))),
                       (ascii ''base'', Str [233, 98, 160])] \<rparr>,
          \<lparr> datetime = Some 1409548200000000000, lat = Finite (40645 / 1000),
             lon = Finite (- 73782 / 1000), base = ascii ''NAN'', date = Some 16314,
             hour = Some 5, weekday = Some (ascii ''Monday''),
             others = [(ascii ''date/time'', Str (ascii ''9/1/2014 5:10:00'')),
                       (ascii ''lat'', Num (Finite (40645 / 1000))),
                       (ascii ''lon'', Num (Finite (- 73782 / 1000))),
                       (ascii ''base'', Num NaN)] \<rparr>] \<rparr>"

text \<open>Values of the widgets over \<open>sample_table\<close>, whose dates are days 16314 and 16315.\<close>

definition all_dates :: widgets where
  "all_dates = \<lparr> chosen_dates = Dates [16314, 16315], hours = [], base_sel = [] \<rparr>"

definition midnight_only :: widgets where
  "midnight_only = \<lparr> chosen_dates = Dates [16314, 16315], hours = [0], base_sel = [] \<rparr>"

definition no_match :: widgets where
  "no_match = \<lparr> chosen_dates = Dates [16314, 16315], hours = [7], base_sel = [] \<rparr>"

section \<open>Facts about strings and timestamps\<close>

lemmas string_defs = ascii_def lower_def lower_char_def strip_def isspace_def upper_def
  upper_char_def

lemmas label_defs = DATE_COL_RAW_def LAT_COL_def LON_COL_def BASE_COL_def

lemmas load_defs = load_data_def normalise_columns_def missing_labels_def cell_of_def isna_def
  to_numeric_def astype_str_def assign_def rename_date_def date_of_def hour_of_def day_name_def
  day_names_def ns_per_day_def ns_per_hour_def

lemma upper_char_nonempty: "stable_upper L \<Longrightarrow> upper_char L c \<noteq> []"
  by (simp add: stable_upper_def upper_char_def)

lemma upper_char_fixed:
  assumes "stable_upper L" and "d \<in> set (upper_char L c)"
  shows "upper_char L d = [d]"
proof (cases "c < 128")
  case True
  with assms(2) show ?thesis by (auto simp: upper_char_def split: if_splits)
next
  case False
  then have "upper_char L c = to_upper L c" and "128 \<le> c"
    by (simp_all add: upper_char_def)
  with assms show ?thesis unfolding stable_upper_def by metis
qed

lemma upper_char_no_space:
  assumes "stable_upper L" and "\<not> isspace c" and "d \<in> set (upper_char L c)"
  shows "\<not> isspace d"
proof (cases "c < 128")
  case True
  with assms(2,3) show ?thesis by (auto simp: upper_char_def isspace_def split: if_splits)
next
  case False
  then have "upper_char L c = to_upper L c" and "128 \<le> c"
    by (simp_all add: upper_char_def)
  with assms show ?thesis unfolding stable_upper_def by metis
qed

lemma concat_map_fixed: "\<forall>d \<in> set xs. f d = [d] \<Longrightarrow> concat (map f xs) = xs"
  by (induction xs) auto

lemma upper_idem:
  assumes "stable_upper L" shows "upper L (upper L s) = upper L s"
proof -
  have "\<forall>d \<in> set (upper L s). upper_char L d = [d]"
    using assms by (auto simp: upper_def dest: upper_char_fixed)
  then show ?thesis unfolding upper_def [of L "upper L s"] by (rule concat_map_fixed)
qed

lemma upper_Nil_iff: "stable_upper L \<Longrightarrow> upper L s = [] \<longleftrightarrow> s = []"
  by (cases s) (auto simp: upper_def upper_char_nonempty)

lemma hd_upper:
  assumes "stable_upper L" and "s \<noteq> []"
  shows "hd (upper L s) \<in> set (upper_char L (hd s))"
proof -
  from assms(2) obtain x xs where s: "s = x # xs" by (cases s) auto
  from assms(1) have "upper_char L x \<noteq> []" by (rule upper_char_nonempty)
  then show ?thesis by (simp add: s upper_def)
qed

lemma last_upper:
  assumes "stable_upper L" and "s \<noteq> []"
  shows "last (upper L s) \<in> set (upper_char L (last s))"
proof -
  from assms(2) obtain xs x where s: "s = xs @ [x]" by (cases s rule: rev_cases) auto
  from assms(1) have "upper_char L x \<noteq> []" by (rule upper_char_nonempty)
  then show ?thesis by (simp add: s upper_def)
qed

lemma trimmed_upper:
  assumes "stable_upper L" and "trimmed s"
  shows "trimmed (upper L s)"
proof (cases "s = []")
  case True
  then show ?thesis by (simp add: trimmed_def upper_def)
next
  case False
  with assms(2) have h: "\<not> isspace (hd s)" and l: "\<not> isspace (last s)"
    by (simp_all add: trimmed_def)
  from upper_char_no_space [OF assms(1) h hd_upper [OF assms(1) False]]
  have "\<not> isspace (hd (upper L s))" .
  moreover from upper_char_no_space [OF assms(1) l last_upper [OF assms(1) False]]
  have "\<not> isspace (last (upper L s))" .
  ultimately show ?thesis by (simp add: trimmed_def)
qed

lemma dropWhile_keeps: "xs \<noteq> [] \<Longrightarrow> \<not> P (hd xs) \<Longrightarrow> dropWhile P xs = xs"
  by (cases xs) auto

lemma strip_trimmed:
  assumes "trimmed s" shows "strip s = s"
proof (cases "s = []")
  case True
  then show ?thesis by (simp add: strip_def)
next
  case False
  with assms have h: "\<not> isspace (hd s)" and l: "\<not> isspace (last s)"
    by (simp_all add: trimmed_def)
  from False h have "dropWhile isspace s = s" by (rule dropWhile_keeps)
  moreover from False l have "dropWhile isspace (rev s) = rev s"
    by (intro dropWhile_keeps) (simp_all add: hd_rev)
  ultimately show ?thesis by (simp add: strip_def)
qed

lemma trimmed_strip: "trimmed (strip s)"
proof (cases "strip s = []")
  case True
  then show ?thesis by (simp add: trimmed_def)
next
  case False
  define a where "a = dropWhile isspace s"
  define b where "b = dropWhile isspace (rev a)"
  have sb: "strip s = rev b" by (simp add: strip_def a_def b_def)
  with False have bne: "b \<noteq> []" by simp
  then have hdb: "\<not> isspace (hd b)" unfolding b_def by (rule hd_dropWhile)
  have "rev a = takeWhile isspace (rev a) @ b" by (simp add: b_def)
  then have "a = rev b @ rev (takeWhile isspace (rev a))"
    by (metis rev_append rev_rev_ident)
  with bne have "hd (rev b) = hd a" by (metis hd_append2 rev_is_Nil_conv)
  moreover from bne have "a \<noteq> []" by (auto simp: b_def)
  then have "\<not> isspace (hd a)" unfolding a_def by (rule hd_dropWhile)
  ultimately have "\<not> isspace (hd (rev b))" by simp
  moreover from bne hdb have "\<not> isspace (last (rev b))" by (simp add: last_rev)
  ultimately show ?thesis by (simp add: trimmed_def sb)
qed

lemma strip_idem: "strip (strip s) = strip s"
  by (simp add: strip_trimmed trimmed_strip)

lemma strip_upper_strip:
  "stable_upper L \<Longrightarrow> strip (upper L (strip s)) = upper L (strip s)"
  by (simp add: strip_trimmed trimmed_upper trimmed_strip)

lemma upper_strip_unknown:
  "upper L (ascii ''UNKNOWN'') = ascii ''UNKNOWN''"
  "strip (ascii ''UNKNOWN'') = ascii ''UNKNOWN''"
  "upper L (strip (ascii ''UNKNOWN'')) = ascii ''UNKNOWN''"
  by (simp_all add: string_defs)

lemma stable_sample: "stable_upper sample_library"
  by (simp add: stable_upper_def sample_library_def upper_char_def isspace_def)

lemma hour_of_range: "0 \<le> hour_of t \<and> hour_of t \<le> 23"
  by (simp add: hour_of_def)

lemma date_of_mono: "s \<le> t \<Longrightarrow> date_of s \<le> date_of t"
  by (simp add: date_of_def ns_per_day_def ns_per_hour_def zdiv_mono1)

section \<open>Facts about the loader\<close>

lemma set_assign: "set (assign name cols) = insert name (set cols)"
  by (auto simp: assign_def)

lemma base_in_rename_date: "BASE_COL \<in> set (rename_date cols) \<longleftrightarrow> BASE_COL \<in> set cols"
  by (auto simp: rename_date_def BASE_COL_def DATE_COL_RAW_def ascii_def)

lemma has_base_iff:
  "BASE_COL \<in> set (assign (ascii ''weekday'') (assign (ascii ''hour'') (assign (ascii ''date'') (rename_date cols))))
     \<longleftrightarrow> BASE_COL \<in> set cols"
  by (simp add: set_assign base_in_rename_date) (simp add: BASE_COL_def ascii_def)

lemma load_data_row:
  assumes "load_data L df0 = Inr t" and "r \<in> set (rows t)"
  shows "datetime r \<noteq> None" and "date r = map_option date_of (datetime r)"
    and "hour r = map_option hour_of (datetime r)" and "weekday r = map_option day_name (datetime r)"
    and "lat r \<noteq> NaN" and "lon r \<noteq> NaN"
    and "lat r = to_numeric L (cell_of (others r) LAT_COL)"
    and "lon r = to_numeric L (cell_of (others r) LON_COL)"
    and "base r = (if BASE_COL \<in> set (normalise_columns L (raw_columns df0))
                   then upper L (strip (astype_str L (cell_of (others r) BASE_COL)))
                   else ascii ''UNKNOWN'')"
    and "\<exists>cs \<in> set (raw_rows df0). others r = zip (normalise_columns L (raw_columns df0)) cs"
proof -
  let ?cols = "normalise_columns L (raw_columns df0)"
  from assms(1) have rs: "rows t = map (\<lambda>(tm, la, lo, cs).
         \<lparr> datetime = tm, lat = la, lon = lo,
           base = (if BASE_COL \<in> set ?cols then upper L (strip (astype_str L (cell_of cs BASE_COL)))
                   else ascii ''UNKNOWN''),
           date = map_option date_of tm, hour = map_option hour_of tm,
           weekday = map_option day_name tm, others = cs \<rparr>)
       (filter (\<lambda>(tm, la, lo, cs). la \<noteq> NaN \<and> lo \<noteq> NaN)
         (map (\<lambda>(tm, cs). (tm, to_numeric L (cell_of cs LAT_COL), to_numeric L (cell_of cs LON_COL), cs))
           (filter (\<lambda>(tm, cs). tm \<noteq> None \<and> \<not> isna (cell_of cs LAT_COL) \<and> \<not> isna (cell_of cs LON_COL))
             (map (\<lambda>cs. (to_datetime L (map (\<lambda>r. cell_of r DATE_COL_RAW) (map (zip ?cols) (raw_rows df0)))
                           (cell_of cs DATE_COL_RAW), cs))
                (map (zip ?cols) (raw_rows df0))))))"
    by (auto simp: load_data_def Let_def has_base_iff split: if_splits list.splits)
  from assms(2) show "datetime r \<noteq> None" and "date r = map_option date_of (datetime r)"
    and "hour r = map_option hour_of (datetime r)" and "weekday r = map_option day_name (datetime r)"
    and "lat r \<noteq> NaN" and "lon r \<noteq> NaN"
    and "lat r = to_numeric L (cell_of (others r) LAT_COL)"
    and "lon r = to_numeric L (cell_of (others r) LON_COL)"
    and "base r = (if BASE_COL \<in> set (normalise_columns L (raw_columns df0))
                   then upper L (strip (astype_str L (cell_of (others r) BASE_COL)))
                   else ascii ''UNKNOWN'')"
    and "\<exists>cs \<in> set (raw_rows df0). others r = zip (normalise_columns L (raw_columns df0)) cs"
    unfolding rs by (auto intro: sym)
qed

lemma load_data_columns:
  assumes "load_data L df0 = Inr t"
  shows "columns t = assign BASE_COL (assign (ascii ''weekday'') (assign (ascii ''hour'') (assign (ascii ''date'')
           (rename_date (normalise_columns L (raw_columns df0))))))"
    and "DATE_COL_RAW \<in> set (normalise_columns L (raw_columns df0))"
    and "LAT_COL \<in> set (normalise_columns L (raw_columns df0))"
    and "LON_COL \<in> set (normalise_columns L (raw_columns df0))"
  using assms
  by (auto simp: load_data_def Let_def missing_labels_def split: if_splits list.splits)

lemma default_dates_span:
  assumes "load_data L df0 = Inr t" and "r \<in> set (rows t)"
  shows "\<exists>d. date r = Some d
             \<and> date_of (Min (set (List.map_filter datetime (rows t)))) \<le> d
             \<and> d \<le> date_of (Max (set (List.map_filter datetime (rows t))))"
proof -
  note row = load_data_row [OF assms]
  from row(1) obtain tm where tm: "datetime r = Some tm" by auto
  with row(2) have d: "date r = Some (date_of tm)" by simp
  let ?ts = "set (List.map_filter datetime (rows t))"
  from assms(2) tm have "tm \<in> ?ts"
    by (force simp: List.map_filter_def)
  then have "Min ?ts \<le> tm" and "tm \<le> Max ?ts" by simp_all
  then have "date_of (Min ?ts) \<le> date_of tm" and "date_of tm \<le> date_of (Max ?ts)"
    by (simp_all add: date_of_mono)
  with d show ?thesis by simp
qed

lemma load_sample: "load_data sample_library sample_frame = Inr sample_table"
  by (simp add: sample_library_def sample_frame_def sample_table_def load_defs string_defs
      label_defs Let_def)

lemma wf_sample: "well_formed sample_library sample_frame"
  by (simp add: well_formed_def sample_frame_def sample_library_def load_defs string_defs
      label_defs)

lemma load_unicode: "load_data sample_library unicode_frame = Inr unicode_table"
  by (simp add: sample_library_def unicode_frame_def unicode_table_def load_defs string_defs
      label_defs Let_def)

lemma wf_unicode: "well_formed sample_library unicode_frame"
  by (simp add: well_formed_def unicode_frame_def sample_library_def load_defs string_defs
      label_defs)

section \<open>The loader: rows of the loaded frame\<close>

text \<open>
  C1 (as amended). For a well-formed frame, every row of the frame that \<open>load_data\<close>
  returns has a timestamp that is not \<^verbatim>\<open>NaT\<close>, a latitude and a longitude that are not
  \<^verbatim>\<open>NaN\<close>, an hour from 0 to 23, and a base that is the upper-casing of a stripped
  string; with an upper-case table that is stable, \<^verbatim>\<open>upper\<close> and \<^verbatim>\<open>strip\<close> leave the base
  as it is. The two \<^verbatim>\<open>dropna\<close> calls remove missing values only: an infinite coordinate
  stays.
\<close>

theorem load_data_rows_canonical:
  assumes "well_formed L df0" and "load_data L df0 = Inr t" and "r \<in> set (rows t)"
  shows "datetime r \<noteq> None \<and> lat r \<noteq> NaN \<and> lon r \<noteq> NaN
         \<and> (\<exists>h. hour r = Some h \<and> 0 \<le> h \<and> h \<le> 23)
         \<and> (\<exists>s. base r = upper L (strip s))
         \<and> (stable_upper L \<longrightarrow> upper L (base r) = base r \<and> strip (base r) = base r)"
proof -
  note row = load_data_row [OF assms(2,3)]
  from row(1) obtain tm where tm: "datetime r = Some tm" by auto
  with row(3) have "hour r = Some (hour_of tm)" by simp
  then have h: "\<exists>h. hour r = Some h \<and> 0 \<le> h \<and> h \<le> 23"
    using hour_of_range [of tm] by simp
  have i: "\<exists>s. base r = upper L (strip s)"
  proof (cases "BASE_COL \<in> set (normalise_columns L (raw_columns df0))")
    case True
    with row(9) show ?thesis by auto
  next
    case False
    with row(9) have "base r = upper L (strip (ascii ''UNKNOWN''))"
      by (simp add: upper_strip_unknown)
    then show ?thesis ..
  qed
  have u: "upper L (base r) = base r" if "stable_upper L"
    using that by (simp add: row(9) upper_idem upper_strip_unknown)
  have s: "strip (base r) = base r" if "stable_upper L"
    using that by (simp add: row(9) strip_upper_strip upper_strip_unknown)
  from row(1,5,6) h i u s show ?thesis by simp
qed

theorem load_data_rows_canonical_witness:
  "well_formed sample_library unicode_frame
   \<and> load_data sample_library unicode_frame = Inr unicode_table
   \<and> hd (rows unicode_table) \<in> set (rows unicode_table)
   \<and> stable_upper sample_library
   \<and> base (hd (rows unicode_table)) = [201, 66]
   \<and> datetime (hd (rows unicode_table)) \<noteq> None
   \<and> lat (hd (rows unicode_table)) \<noteq> NaN \<and> lon (hd (rows unicode_table)) \<noteq> NaN
   \<and> (\<exists>h. hour (hd (rows unicode_table)) = Some h \<and> 0 \<le> h \<and> h \<le> 23)
   \<and> (\<exists>s. base (hd (rows unicode_table)) = upper sample_library (strip s))
   \<and> upper sample_library (base (hd (rows unicode_table))) = base (hd (rows unicode_table))
   \<and> strip (base (hd (rows unicode_table))) = base (hd (rows unicode_table))"
proof -
  have m: "hd (rows unicode_table) \<in> set (rows unicode_table)"
    by (simp add: unicode_table_def)
  have b: "base (hd (rows unicode_table)) = [201, 66]"
    by (simp add: unicode_table_def)
  from load_data_rows_canonical [OF wf_unicode load_unicode m] wf_unicode load_unicode m b
    stable_sample
  show ?thesis by blast
qed

text \<open>
  C1 as stated fails: a latitude that read as infinite passes both \<^verbatim>\<open>dropna\<close> calls and
  is in the loaded frame.
\<close>

theorem load_data_keeps_infinite_latitude:
  "well_formed sample_library inf_frame
   \<and> map_sum id (map lat \<circ> rows) (load_data sample_library inf_frame) = Inr [PosInf]
   \<and> \<not> is_finite PosInf"
  by (simp add: well_formed_def sample_library_def inf_frame_def load_defs string_defs
      label_defs Let_def)

section \<open>The loader: the missing timestamp column\<close>



section \<open>The loader: the base column\<close>

lemma wf_baseless: "well_formed sample_library baseless_frame"
  by (simp add: well_formed_def baseless_frame_def load_defs string_defs label_defs)

lemma load_baseless:
  "load_data sample_library baseless_frame =
     Inr \<lparr> columns = map ascii [''datetime'', ''lat'', ''lon'', ''date'', ''hour'', ''weekday'', ''base''],
           rows = [\<lparr> datetime = Some 1409529720000000000, lat = Finite (40752 / 1000),
                     lon = Finite (- 73991 / 1000), base = ascii ''UNKNOWN'', date = Some 16314,
                     hour = Some 0, weekday = Some (ascii ''Monday''),
                     others = [(ascii ''date/time'', Str (ascii ''9/1/2014 0:02:00'')),
                               (ascii ''lat'', Num (Finite (40752 / 1000))),
                               (ascii ''lon'', Num (Finite (- 73991 / 1000)))] \<rparr>] \<rparr>"
  by (simp add: sample_library_def baseless_frame_def load_defs string_defs label_defs Let_def)

text \<open>
  C9. When the frame has a base column (a label that line 42 normalises to \<^verbatim>\<open>base\<close>),
  the base of every loaded row is the text of its cell (\<^verbatim>\<open>astype(str)\<close>), stripped and
  upper-cased; a missing cell reads \<^verbatim>\<open>nan\<close> and becomes \<^verbatim>\<open>NAN\<close>. \<^verbatim>\<open>UNKNOWN\<close> is what every
  row gets when the frame has no base column. Each loaded row carries the cells of one
  row of the input.
\<close>

theorem load_data_base:
  assumes "well_formed L df0" and "load_data L df0 = Inr t" and "r \<in> set (rows t)"
  shows "(BASE_COL \<in> set (normalise_columns L (raw_columns df0)) \<longrightarrow>
            base r = upper L (strip (astype_str L (cell_of (others r) BASE_COL)))
            \<and> (cell_of (others r) BASE_COL = Num NaN \<longrightarrow> base r = ascii ''NAN''))
         \<and> (BASE_COL \<notin> set (normalise_columns L (raw_columns df0)) \<longrightarrow> base r = ascii ''UNKNOWN'')
         \<and> (\<exists>cs \<in> set (raw_rows df0). others r = zip (normalise_columns L (raw_columns df0)) cs)"
proof -
  note row = load_data_row [OF assms(2,3)]
  have "upper L (strip (astype_str L (Num NaN))) = ascii ''NAN''"
    by (simp add: astype_str_def string_defs)
  with row(9,10) show ?thesis by auto
qed

theorem load_data_base_witness:
  "well_formed sample_library unicode_frame
   \<and> load_data sample_library unicode_frame = Inr unicode_table
   \<and> rows unicode_table ! 1 \<in> set (rows unicode_table)
   \<and> raw_columns unicode_frame ! 3 = ascii ''Base'' @ [160]
   \<and> BASE_COL \<in> set (normalise_columns sample_library (raw_columns unicode_frame))
   \<and> cell_of (others (rows unicode_table ! 1)) BASE_COL = Num NaN
   \<and> base (rows unicode_table ! 1) = ascii ''NAN''
   \<and> BASE_COL \<notin> set (normalise_columns sample_library (raw_columns baseless_frame))
   \<and> map_sum id (map base \<circ> rows) (load_data sample_library baseless_frame)
        = Inr [ascii ''UNKNOWN'']"
proof -
  have m: "rows unicode_table ! 1 \<in> set (rows unicode_table)"
    by (simp add: unicode_table_def)
  have c: "raw_columns unicode_frame ! 3 = ascii ''Base'' @ [160]"
    by (simp add: unicode_frame_def)
  have b: "BASE_COL \<in> set (normalise_columns sample_library (raw_columns unicode_frame))"
    by (simp add: unicode_frame_def normalise_columns_def string_defs label_defs)
  have n: "cell_of (others (rows unicode_table ! 1)) BASE_COL = Num NaN"
    by (simp add: unicode_table_def cell_of_def string_defs label_defs)
  have nb: "BASE_COL \<notin> set (normalise_columns sample_library (raw_columns baseless_frame))"
    by (simp add: baseless_frame_def normalise_columns_def string_defs label_defs)
  have u: "map_sum id (map base \<circ> rows) (load_data sample_library baseless_frame)
             = Inr [ascii ''UNKNOWN'']"
    by (simp add: load_baseless)
  from load_data_base [OF wf_unicode load_unicode m] b n
  have "base (rows unicode_table ! 1) = ascii ''NAN''" by blast
  with wf_unicode load_unicode m c b n nb u show ?thesis by blast
qed

section \<open>Facts about the filter and the grouped counts\<close>

lemmas sample_defs = sample_table_def all_dates_def midnight_only_def no_match_def

lemma rows_filtered: "rows (filtered df w) = filter (keep w) (rows df)"
  by (auto simp: filtered_def keep_def Let_def split: date_input.splits list.splits
      intro!: filter_cong)

lemma columns_filtered: "columns (filtered df w) = columns df"
  by (auto simp: filtered_def Let_def split: date_input.splits list.splits)

lemma more_filtered: "table.more (filtered df w) = table.more df"
  by (auto simp: filtered_def Let_def split: date_input.splits list.splits)

lemma filtered_eq: "filtered df w = df\<lparr>rows := filter (keep w) (rows df)\<rparr>"
  by (rule table.equality) (simp_all add: rows_filtered columns_filtered more_filtered)


lemma sum_list_insort_key:
  "sum_list (map f (insort_key g x xs)) = (f x :: nat) + sum_list (map f xs)"
  by (induction xs) auto

lemma sum_list_sort_key: "sum_list (map f (sort_key g xs)) = sum_list (map (f::'a \<Rightarrow> nat) xs)"
  by (induction xs) (auto simp: sum_list_insort_key)

lemma sum_counts: "sum_list (map (count_list ks) (remdups ks)) = length ks"
proof -
  have "sum_list (map (count_list ks) (remdups ks)) = sum (count_list ks) (set (remdups ks))"
    by (rule sum_list_distinct_conv_sum_set) simp
  also have "\<dots> = length ks" by (simp add: sum_count_set)
  finally show ?thesis .
qed

lemma groupby_size_sum: "sum_list (map snd (groupby_size ord ks)) = length ks"
  by (simp add: groupby_size_def comp_def sum_list_sort_key sum_counts)

lemma groupby_size_positive: "(k, n) \<in> set (groupby_size ord ks) \<Longrightarrow> 0 < n"
  using count_list_0_iff [of ks k] by (auto simp: groupby_size_def)

lemma groupby_size_Nil: "groupby_size ord [] = []"
  by (simp add: groupby_size_def)

lemma map_filter_all_Some:
  "\<forall>x \<in> set xs. f x \<noteq> None \<Longrightarrow> length (List.map_filter f xs) = length xs"
  by (induction xs) (auto split: option.splits)

lemma sorted_by_size:
  "sorted_wrt (\<ge>) (map snd (sort_key (\<lambda>(k, n). - int n) (xs :: ('k \<times> nat) list)))"
proof -
  have "sorted (map (\<lambda>(k, n). - int n) (sort_key (\<lambda>(k, n). - int n) xs))"
    by (rule sorted_sort_key)
  then have "sorted_wrt (\<lambda>x y. snd x \<ge> snd y) (sort_key (\<lambda>(k, n). - int n) xs)"
    by (simp add: sorted_map case_prod_unfold)
  then show ?thesis by (simp add: sorted_wrt_map)
qed

lemma filtered_no_match: "rows (filtered sample_table no_match) = []"
  by (simp add: filtered_def sample_defs Let_def)

section \<open>Hourly counts\<close>

text \<open>
  C2. For a frame in which every row has an hour (as every loaded frame does) and for any
  values of the widgets, the counts of \<open>hour_counts\<close> over the filtered frame add up to
  the number of rows of the filtered frame.
\<close>

theorem hour_counts_sum:
  assumes "\<forall>r \<in> set (rows t). hour r \<noteq> None"
  shows "sum_list (map snd (hour_counts (filtered t w))) = length (rows (filtered t w))"
proof -
  have "\<forall>r \<in> set (rows (filtered t w)). hour r \<noteq> None"
    using assms by (simp add: rows_filtered)
  then have "length (List.map_filter hour (rows (filtered t w))) = length (rows (filtered t w))"
    by (rule map_filter_all_Some)
  then show ?thesis
    by (simp add: hour_counts_def sum_list_sort_key groupby_size_sum)
qed

theorem hour_counts_sum_witness:
  "map hour (rows sample_table) = [Some 0, Some 5, Some 5]
   \<and> hour_counts (filtered sample_table all_dates) = [(0, 1), (5, 2)]
   \<and> sum_list (map snd (hour_counts (filtered sample_table all_dates))) = 3
   \<and> length (rows (filtered sample_table all_dates)) = 3"
proof -
  have a: "\<forall>r \<in> set (rows sample_table). hour r \<noteq> None"
    by (simp add: sample_table_def)
  have b: "length (rows (filtered sample_table all_dates)) = 3"
    by (simp add: filtered_def sample_defs Let_def)
  have c: "hour_counts (filtered sample_table all_dates) = [(0, 1), (5, 2)]"
    by (simp add: hour_counts_def groupby_size_def filtered_def sample_defs Let_def)
  have d: "map hour (rows sample_table) = [Some 0, Some 5, Some 5]"
    by (simp add: sample_table_def)
  from hour_counts_sum [OF a, of all_dates] b c d show ?thesis by simp
qed

section \<open>The filter\<close>




text \<open>
  C4. With no hour and no base selected, the filter returns the frame as it is when every
  row has a date within the two chosen dates, and also when the date widget does not hold
  two dates. The dates the widget starts with, the days of the least and of the greatest
  timestamp (line 125), are such a pair for every frame that \<open>load_data\<close> returned.
\<close>

theorem filtered_identity:
  "((\<forall>r \<in> set (rows t). \<exists>d. date r = Some d \<and> s \<le> d \<and> d \<le> e) \<longrightarrow>
      filtered t \<lparr> chosen_dates = Dates [s, e], hours = [], base_sel = [] \<rparr> = t)
   \<and> ((\<forall>a b. cd \<noteq> Dates [a, b]) \<longrightarrow>
      filtered t \<lparr> chosen_dates = cd, hours = [], base_sel = [] \<rparr> = t)
   \<and> (load_data L df0 = Inr t \<longrightarrow>
      filtered t \<lparr> chosen_dates = Dates [date_of (Min (set (List.map_filter datetime (rows t)))),
                                         date_of (Max (set (List.map_filter datetime (rows t))))],
                   hours = [], base_sel = [] \<rparr> = t)"
proof -
  have full: "filtered t \<lparr> chosen_dates = Dates [s, e], hours = [], base_sel = [] \<rparr> = t"
    if "\<forall>r \<in> set (rows t). \<exists>d. date r = Some d \<and> s \<le> d \<and> d \<le> e" for s e
  proof -
    from that
    have "filter (keep \<lparr> chosen_dates = Dates [s, e], hours = [], base_sel = [] \<rparr>) (rows t) = rows t"
      by (auto simp: keep_def filter_id_conv)
    then show ?thesis by (simp add: filtered_eq)
  qed
  have absent: "filtered t \<lparr> chosen_dates = cd, hours = [], base_sel = [] \<rparr> = t"
    if "\<forall>a b. cd \<noteq> Dates [a, b]"
  proof -
    from that
    have "filter (keep \<lparr> chosen_dates = cd, hours = [], base_sel = [] \<rparr>) (rows t) = rows t"
      by (auto simp: keep_def filter_id_conv split: date_input.splits list.splits)
    then show ?thesis by (simp add: filtered_eq)
  qed
  from full absent default_dates_span [of L df0 t] show ?thesis by blast
qed

theorem filtered_identity_witness:
  "map date (rows sample_table) = [Some 16314, Some 16314, Some 16315]
   \<and> filtered sample_table all_dates = sample_table
   \<and> filtered sample_table \<lparr> chosen_dates = Dates [16314], hours = [], base_sel = [] \<rparr> = sample_table
   \<and> load_data sample_library sample_frame = Inr sample_table"
proof -
  have a: "\<forall>r \<in> set (rows sample_table). \<exists>d. date r = Some d \<and> 16314 \<le> d \<and> d \<le> 16315"
    by (simp add: sample_table_def)
  have b: "\<forall>a b. Dates [16314] \<noteq> Dates [a, b]" by simp
  have c: "map date (rows sample_table) = [Some 16314, Some 16314, Some 16315]"
    by (simp add: sample_table_def)
  from filtered_identity [where t = sample_table and s = 16314 and e = 16315
      and cd = "Dates [16314]"] a b c load_sample
  show ?thesis unfolding all_dates_def by blast
qed

section \<open>Top locations\<close>

lemma quantized_sample:
  "quantized sample_library sample_table =
     [((Finite (40645 / 1000), Finite (- 73782 / 1000)), 2),
      ((Finite (40752 / 1000), Finite (- 73991 / 1000)), 1)]"
  by (simp add: quantized_def groupby_size_def sample_library_def sample_table_def Let_def)

text \<open>
  C5. For every frame, \<open>quantized\<close> (three digits, the first ten) has at most ten entries,
  every count in it is positive, and the counts do not increase along the list.
\<close>

theorem quantized_top:
  "length (quantized L f) \<le> 10
   \<and> (\<forall>(k, n) \<in> set (quantized L f). 0 < n)
   \<and> sorted_wrt (\<ge>) (map snd (quantized L f))"
proof (intro conjI)
  show "length (quantized L f) \<le> 10"
    by (simp add: quantized_def Let_def)
  show "\<forall>(k, n) \<in> set (quantized L f). 0 < n"
    by (auto simp: quantized_def Let_def dest!: in_set_takeD dest: groupby_size_positive)
  show "sorted_wrt (\<ge>) (map snd (quantized L f))"
    unfolding quantized_def Let_def take_map [symmetric]
    by (rule sorted_wrt_take) (rule sorted_by_size)
qed

theorem quantized_top_witness:
  "quantized sample_library sample_table =
     [((Finite (40645 / 1000), Finite (- 73782 / 1000)), 2),
      ((Finite (40752 / 1000), Finite (- 73991 / 1000)), 1)]
   \<and> length (quantized sample_library sample_table) \<le> 10
   \<and> sorted_wrt (\<ge>) (map snd (quantized sample_library sample_table))"
  using quantized_top [of sample_library sample_table] quantized_sample by blast

section \<open>The page\<close>

lemma csv_app: "app L df w = Inr p \<Longrightarrow> csv p = to_csv (filtered df w)"
  by (auto simp: app_def Let_def split: if_splits option.splits)

lemma set_rename_date:
  "set (rename_date cols) = (\<lambda>c. if c = DATE_COL_RAW then ascii ''datetime'' else c) ` set cols"
  by (simp add: rename_date_def)

lemma app_sample_header:
  "map_sum id (header \<circ> csv) (app sample_library sample_table midnight_only) =
     Inr (map ascii [''datetime'', ''lat'', ''lon'', ''base'', ''date'', ''hour'', ''weekday''])"
  by (simp add: app_def to_csv_def filtered_def sample_defs Let_def)

text \<open>
  C7 (as amended). For a frame that \<open>load_data\<close> returned, the header of the CSV export is
  the list of all labels of the loaded frame, in its order. The labels datetime, lat, lon,
  base, hour and weekday are among them, and so is date (and any other column of the
  input); every record has one field for each label.
\<close>

theorem csv_header:
  assumes "well_formed L df0" and "load_data L df0 = Inr df" and "app L df w = Inr p"
  shows "header (csv p) = columns df
         \<and> set [ascii ''datetime'', LAT_COL, LON_COL, BASE_COL, ascii ''hour'', ascii ''weekday'', ascii ''date'']
             \<subseteq> set (header (csv p))
         \<and> list_all (\<lambda>rec. length rec = length (header (csv p))) (records (csv p))"
proof -
  note cols = load_data_columns [OF assms(2)]
  let ?cols = "normalise_columns L (raw_columns df0)"
  have h: "header (csv p) = columns df"
    by (simp add: csv_app [OF assms(3)] to_csv_def columns_filtered)
  have "ascii ''datetime'' \<in> set (rename_date ?cols)"
    using cols(2) by (auto simp: set_rename_date)
  moreover have "LAT_COL \<in> set (rename_date ?cols)"
    using cols(3) by (auto simp: set_rename_date label_defs ascii_def)
  moreover have "LON_COL \<in> set (rename_date ?cols)"
    using cols(4) by (auto simp: set_rename_date label_defs ascii_def)
  ultimately have "set [ascii ''datetime'', LAT_COL, LON_COL, BASE_COL, ascii ''hour'', ascii ''weekday'', ascii ''date'']
      \<subseteq> set (columns df)"
    by (simp add: cols(1) set_assign)
  moreover have "list_all (\<lambda>rec. length rec = length (header (csv p))) (records (csv p))"
    by (simp add: csv_app [OF assms(3)] to_csv_def list_all_iff)
  ultimately show ?thesis using h by simp
qed

theorem csv_header_witness:
  "well_formed sample_library sample_frame \<and> load_data sample_library sample_frame = Inr sample_table
   \<and> map_sum id (header \<circ> csv) (app sample_library sample_table midnight_only)
       = Inr (columns sample_table)
   \<and> set [ascii ''datetime'', LAT_COL, LON_COL, BASE_COL, ascii ''hour'', ascii ''weekday'', ascii ''date'']
        \<subseteq> set (columns sample_table)"
proof -
  obtain p where p: "app sample_library sample_table midnight_only = Inr p"
    by (simp add: app_def sample_table_def Let_def)
  from csv_header [OF wf_sample load_sample p]
  have h: "header (csv p) = columns sample_table"
    and s: "set [ascii ''datetime'', LAT_COL, LON_COL, BASE_COL, ascii ''hour'', ascii ''weekday'', ascii ''date'']
              \<subseteq> set (header (csv p))"
    by blast+
  from s have "set [ascii ''datetime'', LAT_COL, LON_COL, BASE_COL, ascii ''hour'', ascii ''weekday'', ascii ''date'']
              \<subseteq> set (columns sample_table)"
    unfolding h .
  moreover from p h
  have "map_sum id (header \<circ> csv) (app sample_library sample_table midnight_only)
          = Inr (columns sample_table)"
    by simp
  ultimately show ?thesis using wf_sample load_sample by blast
qed

text \<open>
  C7 as stated fails: the export of the tutorial's four columns has seven columns, with
  date between base and hour.
\<close>

theorem csv_exports_date_column:
  "load_data sample_library sample_frame = Inr sample_table
   \<and> map_sum id (header \<circ> csv) (app sample_library sample_table midnight_only) =
       Inr (map ascii [''datetime'', ''lat'', ''lon'', ''base'', ''date'', ''hour'', ''weekday''])
   \<and> (map ascii [''datetime'', ''lat'', ''lon'', ''base'', ''date'', ''hour'', ''weekday''])
       \<noteq> map ascii [''datetime'', ''lat'', ''lon'', ''base'', ''hour'', ''weekday'']"
  using load_sample app_sample_header by simp

text \<open>
  C8. When the filter leaves no row, \<open>hour_counts\<close> and \<open>quantized\<close> are empty and the CSV
  export is the header with no record. If the loaded frame has a timestamp at all (so
  that the dates of line 125 are dates), the script raises nothing: the page has these
  empty views, and the notice in place of the map, whose midpoint is not computed.
\<close>

theorem empty_filtered_views:
  assumes "rows (filtered df w) = []"
  shows "hour_counts (filtered df w) = []
         \<and> quantized L (filtered df w) = []
         \<and> to_csv (filtered df w) = \<lparr> header = columns df, records = [] \<rparr>
         \<and> (List.map_filter datetime (rows df) \<noteq> [] \<longrightarrow>
              (\<exists>p. app L df w = Inr p \<and> hour_chart p = [] \<and> top_locations p = []
                   \<and> map_tab p = None \<and> csv p = \<lparr> header = columns df, records = [] \<rparr>
                   \<and> kpi_rides p = 0))"
proof -
  have h: "hour_counts (filtered df w) = []"
    by (simp add: hour_counts_def assms groupby_size_Nil)
  have q: "quantized L (filtered df w) = []"
    by (simp add: quantized_def assms groupby_size_Nil)
  have c: "to_csv (filtered df w) = \<lparr> header = columns df, records = [] \<rparr>"
    by (simp add: to_csv_def assms columns_filtered)
  have e: "empty (filtered df w)"
    by (simp add: empty_def assms)
  from h q c e assms show ?thesis
    by (simp add: app_def Let_def)
qed

theorem empty_filtered_views_witness:
  "rows (filtered sample_table no_match) = []
   \<and> List.map_filter datetime (rows sample_table) \<noteq> []
   \<and> hour_counts (filtered sample_table no_match) = []
   \<and> quantized sample_library (filtered sample_table no_match) = []
   \<and> to_csv (filtered sample_table no_match) =
       \<lparr> header = map ascii [''datetime'', ''lat'', ''lon'', ''base'', ''date'', ''hour'', ''weekday''],
         records = [] \<rparr>
   \<and> map_sum id map_tab (app sample_library sample_table no_match) = Inr None"
proof -
  have d: "List.map_filter datetime (rows sample_table) \<noteq> []"
    by (simp add: sample_table_def)
  have c: "columns sample_table = map ascii [''datetime'', ''lat'', ''lon'', ''base'', ''date'', ''hour'', ''weekday'']"
    by (simp add: sample_table_def)
  from empty_filtered_views [OF filtered_no_match, of sample_library] d
  obtain p where "app sample_library sample_table no_match = Inr p" and "map_tab p = None"
    by blast
  then have "map_sum id map_tab (app sample_library sample_table no_match) = Inr None" by simp
  with empty_filtered_views [OF filtered_no_match, of sample_library] filtered_no_match d c
  show ?thesis by simp
qed

text \<open>
  C10. The date window on the page is the pair of the days of the least and of the
  greatest timestamp of the loaded frame, before any filter: two runs of the script on
  the same frame show the same window (or stop with the same error), whatever the
  widgets hold.
\<close>

theorem kpi_window_unfiltered:
  "map_sum id kpi_window (app L df w1) = map_sum id kpi_window (app L df w2)
   \<and> (app L df w1 = Inr p \<and> List.map_filter datetime (rows df) \<noteq> [] \<longrightarrow>
        kpi_window p = (Some (date_of (Min (set (List.map_filter datetime (rows df))))),
                        Some (date_of (Max (set (List.map_filter datetime (rows df)))))))"
  by (auto simp: app_def Let_def split: option.splits)

theorem kpi_window_unfiltered_witness:
  "map_sum id kpi_window (app sample_library sample_table no_match) = Inr (Some 16314, Some 16315)
   \<and> map_sum id kpi_window (app sample_library sample_table midnight_only)
        = Inr (Some 16314, Some 16315)"
proof -
  have a: "map_sum id kpi_window (app sample_library sample_table midnight_only)
             = Inr (Some 16314, Some 16315)"
    by (simp add: app_def sample_defs Let_def date_of_def ns_per_day_def ns_per_hour_def)
  with kpi_window_unfiltered [of sample_library sample_table no_match midnight_only]
  show ?thesis by simp
qed

end
